theory Spec2Isabelle
  imports Complex_Main
begin

section \<open>The mortgage prepayment calculator (client/src/lib/mortgageCalculator.ts)\<close>

text \<open>
  The calculator is a module of pure functions over JavaScript numbers, which are IEEE 754
  doubles. The functions are embedded once, over a record of the arithmetic operations
  they use, and read with two arithmetics: \<open>doubleArith\<close>, the arithmetic of the
  source (every operation rounded to the nearest double, with infinities, \<open>NaN\<close> and
  the negative zero), and \<open>exactArith\<close>, the real numbers, for the statements that
  hold of the formulas but not of their rounded evaluation.
\<close>

subsection \<open>Doubles\<close>

text \<open>
  \<open>Fin x\<close> is the finite number \<open>x\<close> (\<open>Fin 0\<close> the positive zero). The operations
  below return \<open>Fin x\<close> only for an \<open>x\<close> that a double represents.
\<close>

datatype double = Fin real | NegZero | PInf | NInf | NaN

fun valueOf :: "double \<Rightarrow> real" where
  "valueOf (Fin x) = x"
| "valueOf _ = 0"

fun isFinite :: "double \<Rightarrow> bool" where
  "isFinite (Fin x) = True"
| "isFinite NegZero = True"
| "isFinite _ = False"

fun isNegative :: "double \<Rightarrow> bool" where
  "isNegative (Fin x) = (x < 0)"
| "isNegative NegZero = True"
| "isNegative NInf = True"
| "isNegative _ = False"

definition signedZero :: "bool \<Rightarrow> double" where
  "signedZero negative = (if negative then NegZero else Fin 0)"

definition signedInf :: "bool \<Rightarrow> double" where
  "signedInf negative = (if negative then NInf else PInf)"

text \<open>
  Rounding to the nearest double, ties to the even significand: a significand of 53 bits
  scaled by the binary exponent of the number, which is at least \<open>-1022\<close> (below that
  the doubles are equally spaced), and an overflow to infinity from \<open>2^1024\<close> on.
\<close>

function binaryExponent :: "real \<Rightarrow> int" where
  "binaryExponent x =
     (if x \<le> 0 then 0
      else if 2 \<le> x then binaryExponent (x / 2) + 1
      else if x < 1 then binaryExponent (2 * x) - 1
      else 0)"
  by pat_completeness auto
termination
proof (relation "measure (\<lambda>x. if 1 \<le> x then nat \<lfloor>x\<rfloor> else nat (1 + \<lfloor>1 / x\<rfloor>))", goal_cases)
  case 1
  show ?case by simp
next
  case (2 x)
  then have "x / 2 \<le> x - 1" by simp
  then have "\<lfloor>x / 2\<rfloor> \<le> \<lfloor>x - 1\<rfloor>" by (rule floor_mono)
  moreover from 2 have "0 < \<lfloor>x\<rfloor>" by simp
  ultimately show ?case using 2 by simp
next
  case (3 x)
  then have x: "0 < x" "x < 1" by simp_all
  define a where "a = \<lfloor>1 / (2 * x)\<rfloor>"
  define b where "b = \<lfloor>1 / x\<rfloor>"
  from x have "1 \<le> 1 / x" by simp
  then have b1: "1 \<le> b" unfolding b_def by (simp only: le_floor_iff of_int_1)
  from x have "0 \<le> 1 / (2 * x)" by simp
  then have a0: "0 \<le> a" unfolding a_def by (simp only: zero_le_floor)
  from x have nx: "\<not> 1 \<le> x" by simp
  show ?case
  proof (cases "1 \<le> 2 * x")
    case True
    with x have "\<lfloor>2 * x\<rfloor> = 1" by (simp add: floor_eq_iff)
    with b1 have "nat \<lfloor>2 * x\<rfloor> < nat (1 + b)" by simp
    then show ?thesis
      unfolding in_measure b_def by (simp only: True nx if_True if_False)
  next
    case False
    with x have "2 \<le> 1 / x" by (simp add: field_simps)
    then have "1 / x / 2 \<le> 1 / x - 1" by simp
    moreover have e: "1 / (2 * x) = 1 / x / 2" by simp
    ultimately have "1 / (2 * x) \<le> 1 / x - 1" by (simp only: e)
    then have "\<lfloor>1 / (2 * x)\<rfloor> \<le> \<lfloor>1 / x - 1\<rfloor>" by (rule floor_mono)
    then have "a \<le> b - 1" unfolding a_def b_def by (simp only: floor_diff_one)
    with a0 have "nat (1 + a) < nat (1 + b)" by simp
    then show ?thesis
      unfolding in_measure a_def b_def by (simp only: False nx if_False)
  qed
qed

declare binaryExponent.simps [simp del]

definition roundHalfEven :: "real \<Rightarrow> int" where
  "roundHalfEven y =
     (let f = \<lfloor>y\<rfloor>; d = y - of_int f
      in if d < 1 / 2 then f else if 1 / 2 < d then f + 1 else if even f then f else f + 1)"

definition roundToDouble :: "real \<Rightarrow> real" where
  "roundToDouble x =
     (let e = max (binaryExponent \<bar>x\<bar>) (- 1022) - 52
      in sgn x * of_int (roundHalfEven (\<bar>x\<bar> / power_int 2 e)) * power_int 2 e)"

definition toDouble :: "real \<Rightarrow> double" where
  "toDouble x =
     (if 2 ^ 1024 \<le> \<bar>x\<bar> then signedInf (x < 0)
      else let y = roundToDouble x
           in if 2 ^ 1024 \<le> \<bar>y\<bar> then signedInf (x < 0)
              else if y = 0 then signedZero (x < 0)
              else Fin y)"

text \<open>The operators \<open>+\<close>, \<open>-\<close>, \<open>*\<close> and \<open>/\<close>: the exact result, rounded.\<close>

fun dneg :: "double \<Rightarrow> double" where
  "dneg (Fin x) = (if x = 0 then NegZero else Fin (- x))"
| "dneg NegZero = Fin 0"
| "dneg PInf = NInf"
| "dneg NInf = PInf"
| "dneg NaN = NaN"

definition dadd :: "double \<Rightarrow> double \<Rightarrow> double" where
  "dadd a b =
     (if a = NaN \<or> b = NaN then NaN
      else if \<not> isFinite a then (if isFinite b \<or> b = a then a else NaN)
      else if \<not> isFinite b then b
      else if valueOf a + valueOf b = 0 then signedZero (a = NegZero \<and> b = NegZero)
      else toDouble (valueOf a + valueOf b))"

definition dsub :: "double \<Rightarrow> double \<Rightarrow> double" where
  "dsub a b = dadd a (dneg b)"

definition dmul :: "double \<Rightarrow> double \<Rightarrow> double" where
  "dmul a b =
     (if a = NaN \<or> b = NaN then NaN
      else if \<not> isFinite a \<or> \<not> isFinite b then
        (if (isFinite a \<and> valueOf a = 0) \<or> (isFinite b \<and> valueOf b = 0) then NaN
         else signedInf (isNegative a \<noteq> isNegative b))
      else if valueOf a * valueOf b = 0 then signedZero (isNegative a \<noteq> isNegative b)
      else toDouble (valueOf a * valueOf b))"

definition ddiv :: "double \<Rightarrow> double \<Rightarrow> double" where
  "ddiv a b =
     (if a = NaN \<or> b = NaN then NaN
      else if \<not> isFinite a then
        (if isFinite b then signedInf (isNegative a \<noteq> isNegative b) else NaN)
      else if \<not> isFinite b then signedZero (isNegative a \<noteq> isNegative b)
      else if valueOf b = 0 then
        (if valueOf a = 0 then NaN else signedInf (isNegative a \<noteq> isNegative b))
      else if valueOf a = 0 then signedZero (isNegative a \<noteq> isNegative b)
      else toDouble (valueOf a / valueOf b))"

text \<open>The comparisons \<open><=\<close> and \<open>===\<close>: false on \<open>NaN\<close>, and the two zeros are equal.\<close>

definition dle :: "double \<Rightarrow> double \<Rightarrow> bool" where
  "dle a b =
     (a \<noteq> NaN \<and> b \<noteq> NaN \<and>
      (a = NInf \<or> b = PInf \<or> (isFinite a \<and> isFinite b \<and> valueOf a \<le> valueOf b)))"

definition deq :: "double \<Rightarrow> double \<Rightarrow> bool" where
  "deq a b =
     (a \<noteq> NaN \<and> b \<noteq> NaN \<and>
      (if isFinite a \<and> isFinite b then valueOf a = valueOf b else a = b))"

definition dlt :: "double \<Rightarrow> double \<Rightarrow> bool" where
  "dlt a b = (dle a b \<and> \<not> deq a b)"

text \<open>\<open>Math.ceil\<close> and \<open>Math.max\<close> of two numbers.\<close>

fun dceil :: "double \<Rightarrow> double" where
  "dceil (Fin x) = (if \<lceil>x\<rceil> = 0 \<and> x < 0 then NegZero else Fin (of_int \<lceil>x\<rceil>))"
| "dceil a = a"

definition dmax :: "double \<Rightarrow> double \<Rightarrow> double" where
  "dmax a b =
     (if a = NaN \<or> b = NaN then NaN
      else if dlt a b then b
      else if dlt b a then a
      else if a = NegZero then b else a)"

text \<open>
  \<open>Math.pow\<close> follows the cases of the language definition (\<open>Number::exponentiate\<close>);
  for a finite non-zero base and exponent the language leaves the result to the
  implementation, as an approximation of the real power, and the embedding takes that
  approximation as the parameter \<open>approx\<close>. \<open>nearestPow\<close> is the approximation that
  rounds the real power to the nearest double.
\<close>

definition isOddInteger :: "double \<Rightarrow> bool" where
  "isOddInteger a = (isFinite a \<and> of_int \<lfloor>valueOf a\<rfloor> = valueOf a \<and> odd \<lfloor>valueOf a\<rfloor>)"

definition mathPow :: "(real \<Rightarrow> real \<Rightarrow> double) \<Rightarrow> double \<Rightarrow> double \<Rightarrow> double" where
  "mathPow approx base expo =
     (if expo = NaN then NaN
      else if isFinite expo \<and> valueOf expo = 0 then Fin 1
      else if base = NaN then NaN
      else if base = PInf then (if isNegative expo then Fin 0 else PInf)
      else if base = NInf then
        (if isNegative expo then signedZero (isOddInteger expo)
         else signedInf (isOddInteger expo))
      else if valueOf base = 0 then
        (if isNegative expo then signedInf (base = NegZero \<and> isOddInteger expo)
         else signedZero (base = NegZero \<and> isOddInteger expo))
      else if expo = PInf then
        (if 1 < \<bar>valueOf base\<bar> then PInf else if \<bar>valueOf base\<bar> = 1 then NaN else Fin 0)
      else if expo = NInf then
        (if 1 < \<bar>valueOf base\<bar> then Fin 0 else if \<bar>valueOf base\<bar> = 1 then NaN else PInf)
      else if valueOf base < 0 \<and> of_int \<lfloor>valueOf expo\<rfloor> \<noteq> valueOf expo then NaN
      else approx (valueOf base) (valueOf expo))"

definition realPow :: "real \<Rightarrow> real \<Rightarrow> real" where
  "realPow b y = (if of_int \<lfloor>y\<rfloor> = y then power_int b \<lfloor>y\<rfloor> else b powr y)"

definition nearestPow :: "real \<Rightarrow> real \<Rightarrow> double" where
  "nearestPow b y = toDouble (realPow b y)"

subsection \<open>The arithmetic of the program\<close>

record 'n arith =
  num_add :: "'n \<Rightarrow> 'n \<Rightarrow> 'n"
  num_sub :: "'n \<Rightarrow> 'n \<Rightarrow> 'n"
  num_mul :: "'n \<Rightarrow> 'n \<Rightarrow> 'n"
  num_div :: "'n \<Rightarrow> 'n \<Rightarrow> 'n"
  num_pow :: "'n \<Rightarrow> 'n \<Rightarrow> 'n"
  num_le :: "'n \<Rightarrow> 'n \<Rightarrow> bool"
  num_eq :: "'n \<Rightarrow> 'n \<Rightarrow> bool"
  num_ceil :: "'n \<Rightarrow> 'n"
  num_max :: "'n \<Rightarrow> 'n \<Rightarrow> 'n"
  num_of_int :: "int \<Rightarrow> 'n"

definition doubleArith :: "(real \<Rightarrow> real \<Rightarrow> double) \<Rightarrow> double arith" where
  "doubleArith approx =
     \<lparr>num_add = dadd, num_sub = dsub, num_mul = dmul, num_div = ddiv,
      num_pow = mathPow approx, num_le = dle, num_eq = deq, num_ceil = dceil,
      num_max = dmax, num_of_int = (\<lambda>i. Fin (of_int i))\<rparr>"

definition exactArith :: "real arith" where
  "exactArith =
     \<lparr>num_add = (+), num_sub = (-), num_mul = (*), num_div = (/),
      num_pow = realPow, num_le = (\<le>), num_eq = (=), num_ceil = (\<lambda>x. of_int \<lceil>x\<rceil>),
      num_max = max, num_of_int = of_int\<rparr>"

subsection \<open>Data model\<close>

datatype RepaymentMethod = equal_principal_interest | equal_principal

datatype PrepaymentType = reduce_payment | reduce_period

record 'n MortgageInput =
  totalLoan :: 'n
  remainingPeriods :: 'n
  annualRate :: 'n
  prepaymentAmount :: 'n
  repaymentMethod :: RepaymentMethod
  prepaymentType :: PrepaymentType

text \<open>
  The field \<open>period\<close> holds the loop counter. The counters of the program are integers
  that a double holds exactly (a schedule of \<open>2^53\<close> entries cannot be built), and the
  embedding keeps them as \<^typ>\<open>int\<close>.
\<close>

record 'n PaymentSchedule =
  period :: int
  payment :: 'n
  principal :: 'n
  interest :: 'n
  balance :: 'n

record 'n CalculationResult =
  originalMonthlyPayment :: 'n
  totalInterestOriginal :: 'n
  newMonthlyPayment :: 'n
  totalInterestNew :: 'n
  interestSavings :: 'n
  periodReduction :: 'n
  newRemainingPeriods :: 'n
  schedule :: "'n PaymentSchedule list"

text \<open>Reading a property of \<open>undefined\<close> (the first entry of an empty schedule) throws.\<close>

datatype error = TypeError

subsection \<open>Operations\<close>

text \<open>
  Every function takes the arithmetic \<open>A\<close> first. A function whose loop may run forever
  (\<open>i <= periods\<close> with \<open>periods\<close> infinite) returns an option, \<open>None\<close> when it does
  not return.
\<close>

definition getMonthlyRate :: "'n arith \<Rightarrow> 'n \<Rightarrow> 'n" where
  "getMonthlyRate A annRate = num_div A (num_div A annRate (num_of_int A 100)) (num_of_int A 12)"

definition calculateEqualPayment :: "'n arith \<Rightarrow> 'n \<Rightarrow> 'n \<Rightarrow> 'n \<Rightarrow> 'n" where
  "calculateEqualPayment A princ monthlyRate periods =
     (if num_eq A monthlyRate (num_of_int A 0) then num_div A princ periods
      else
        let numerator =
              num_mul A monthlyRate (num_pow A (num_add A (num_of_int A 1) monthlyRate) periods);
            denominator =
              num_sub A (num_pow A (num_add A (num_of_int A 1) monthlyRate) periods) (num_of_int A 1)
        in num_div A (num_mul A princ numerator) denominator)"

text \<open>
  The \<open>for\<close> loop of \<open>generateEqualPaymentSchedule\<close>: the counter \<open>i\<close>, the running
  balance (which is not clamped; only the recorded one is) and the schedule built so far.
\<close>

partial_function (option) equalPaymentLoop ::
  "'n arith \<Rightarrow> 'n \<Rightarrow> 'n \<Rightarrow> 'n \<Rightarrow> int \<Rightarrow> 'n \<Rightarrow> 'n PaymentSchedule list \<Rightarrow>
     'n PaymentSchedule list option" where
  "equalPaymentLoop A monthlyPayment monthlyRate periods i bal sched =
     (if num_le A (num_of_int A i) periods then
        let interest' = num_mul A bal monthlyRate;
            principalPayment = num_sub A monthlyPayment interest';
            bal' = num_sub A bal principalPayment
        in equalPaymentLoop A monthlyPayment monthlyRate periods (i + 1) bal'
             (sched @ [\<lparr>period = i, payment = monthlyPayment, principal = principalPayment,
                        interest = interest', balance = num_max A (num_of_int A 0) bal'\<rparr>])
      else Some sched)"

declare equalPaymentLoop.simps [code]

definition generateEqualPaymentSchedule ::
  "'n arith \<Rightarrow> 'n \<Rightarrow> 'n \<Rightarrow> 'n \<Rightarrow> 'n PaymentSchedule list option" where
  "generateEqualPaymentSchedule A princ monthlyRate periods =
     (let monthlyPayment = calculateEqualPayment A princ monthlyRate periods
      in equalPaymentLoop A monthlyPayment monthlyRate periods 1 princ [])"

partial_function (option) equalPrincipalLoop ::
  "'n arith \<Rightarrow> 'n \<Rightarrow> 'n \<Rightarrow> 'n \<Rightarrow> int \<Rightarrow> 'n \<Rightarrow> 'n PaymentSchedule list \<Rightarrow>
     'n PaymentSchedule list option" where
  "equalPrincipalLoop A principalPayment monthlyRate periods i bal sched =
     (if num_le A (num_of_int A i) periods then
        let interest' = num_mul A bal monthlyRate;
            payment' = num_add A principalPayment interest';
            bal' = num_sub A bal principalPayment
        in equalPrincipalLoop A principalPayment monthlyRate periods (i + 1) bal'
             (sched @ [\<lparr>period = i, payment = payment', principal = principalPayment,
                        interest = interest', balance = num_max A (num_of_int A 0) bal'\<rparr>])
      else Some sched)"

declare equalPrincipalLoop.simps [code]

definition generateEqualPrincipalSchedule ::
  "'n arith \<Rightarrow> 'n \<Rightarrow> 'n \<Rightarrow> 'n \<Rightarrow> 'n PaymentSchedule list option" where
  "generateEqualPrincipalSchedule A princ monthlyRate periods =
     (let principalPayment = num_div A princ periods
      in equalPrincipalLoop A principalPayment monthlyRate periods 1 princ [])"

definition calculateTotalInterest :: "'n arith \<Rightarrow> 'n PaymentSchedule list \<Rightarrow> 'n" where
  "calculateTotalInterest A sched =
     foldl (\<lambda>sum item. num_add A sum (interest item)) (num_of_int A 0) sched"

text \<open>
  The \<open>while\<close> loop of \<open>calculateNewPeriods\<close> over \<open>low\<close>, \<open>high\<close> and \<open>result\<close>,
  integers between 0 and 1001.
\<close>

function newPeriodsLoop :: "'n arith \<Rightarrow> 'n \<Rightarrow> 'n \<Rightarrow> 'n \<Rightarrow> int \<Rightarrow> int \<Rightarrow> int \<Rightarrow> int" where
  "newPeriodsLoop A princ monthlyRate monthlyPayment low high result =
     (if low \<le> high then
        let mid = \<lfloor>(of_int (low + high) :: real) / 2\<rfloor>;
            testPayment = calculateEqualPayment A princ monthlyRate (num_of_int A mid)
        in if num_le A testPayment monthlyPayment
           then newPeriodsLoop A princ monthlyRate monthlyPayment low (mid - 1) mid
           else newPeriodsLoop A princ monthlyRate monthlyPayment (mid + 1) high result
      else result)"
  by pat_completeness auto
termination
proof (relation "measure (\<lambda>(A, p, r, mp, low, high, res). nat (high + 1 - low))", goal_cases)
  case 1
  show ?case by simp
next
  case (2 A princ monthlyRate monthlyPayment low high result x xa)
  have "x = (low + high) div 2"
    using 2(2) floor_divide_of_int_eq [of "low + high" 2, where ?'a = real] by simp
  with 2(1) show ?case by simp
next
  case (3 A princ monthlyRate monthlyPayment low high result x xa)
  have "x = (low + high) div 2"
    using 3(2) floor_divide_of_int_eq [of "low + high" 2, where ?'a = real] by simp
  with 3(1) show ?case by simp
qed

declare newPeriodsLoop.simps [simp del]

definition calculateNewPeriods :: "'n arith \<Rightarrow> 'n \<Rightarrow> 'n \<Rightarrow> 'n \<Rightarrow> 'n" where
  "calculateNewPeriods A princ monthlyRate monthlyPayment =
     (if num_eq A monthlyRate (num_of_int A 0) then num_ceil A (num_div A princ monthlyPayment)
      else num_of_int A (newPeriodsLoop A princ monthlyRate monthlyPayment 1 1000 1000))"

text \<open>
  \<open>calculateMortgage\<close>. The two reads \<open>originalSchedule[0].payment\<close> and
  \<open>newSchedule[0].payment\<close> throw on an empty schedule; the four \<open>let\<close> variables
  assigned in the branches of the strategy are the tuple the branches return. Local
  variables that share a name with a field of the result carry a prime.
\<close>

definition calculateMortgage ::
  "'n arith \<Rightarrow> 'n MortgageInput \<Rightarrow> (error + 'n CalculationResult) option" where
  "calculateMortgage A input =
     (let monthlyRate = getMonthlyRate A (annualRate input)
      in case (if repaymentMethod input = equal_principal_interest
               then generateEqualPaymentSchedule A (totalLoan input) monthlyRate
                      (remainingPeriods input)
               else generateEqualPrincipalSchedule A (totalLoan input) monthlyRate
                      (remainingPeriods input)) of
           None \<Rightarrow> None
         | Some originalSchedule \<Rightarrow>
            (case originalSchedule of
               [] \<Rightarrow> Some (Inl TypeError)
             | first # _ \<Rightarrow>
                 let originalMonthlyPayment' = payment first;
                     totalInterestOriginal' = calculateTotalInterest A originalSchedule;
                     remainingPrincipal = num_sub A (totalLoan input) (prepaymentAmount input)
                 in if num_le A remainingPrincipal (num_of_int A 0) then
                      Some (Inr \<lparr>originalMonthlyPayment = originalMonthlyPayment',
                                 totalInterestOriginal = totalInterestOriginal',
                                 newMonthlyPayment = num_of_int A 0,
                                 totalInterestNew = num_of_int A 0,
                                 interestSavings = totalInterestOriginal',
                                 periodReduction = remainingPeriods input,
                                 newRemainingPeriods = num_of_int A 0,
                                 schedule = []\<rparr>)
                    else
                      let branch =
                        (if prepaymentType input = reduce_payment then
                           let newRemainingPeriods' = remainingPeriods input;
                               periodReduction' = num_of_int A 0
                           in (case (if repaymentMethod input = equal_principal_interest
                                     then generateEqualPaymentSchedule A remainingPrincipal
                                            monthlyRate newRemainingPeriods'
                                     else generateEqualPrincipalSchedule A remainingPrincipal
                                            monthlyRate newRemainingPeriods') of
                                 None \<Rightarrow> None
                               | Some newSchedule \<Rightarrow>
                                  (case newSchedule of
                                     [] \<Rightarrow> Some (Inl TypeError)
                                   | first' # _ \<Rightarrow>
                                       Some (Inr (newSchedule, payment first',
                                                  newRemainingPeriods', periodReduction'))))
                         else
                           let newMonthlyPayment' = originalMonthlyPayment';
                               newRemainingPeriods' =
                                 (if repaymentMethod input = equal_principal_interest
                                  then calculateNewPeriods A remainingPrincipal monthlyRate
                                         newMonthlyPayment'
                                  else
                                    let originalPrincipalPayment =
                                          num_div A (totalLoan input) (remainingPeriods input)
                                    in num_ceil A
                                         (num_div A remainingPrincipal originalPrincipalPayment));
                               periodReduction' =
                                 num_sub A (remainingPeriods input) newRemainingPeriods'
                           in (case (if repaymentMethod input = equal_principal_interest
                                     then generateEqualPaymentSchedule A remainingPrincipal
                                            monthlyRate newRemainingPeriods'
                                     else generateEqualPrincipalSchedule A remainingPrincipal
                                            monthlyRate newRemainingPeriods') of
                                 None \<Rightarrow> None
                               | Some newSchedule \<Rightarrow>
                                   Some (Inr (newSchedule, newMonthlyPayment',
                                              newRemainingPeriods', periodReduction'))))
                      in (case branch of
                            None \<Rightarrow> None
                          | Some (Inl e) \<Rightarrow> Some (Inl e)
                          | Some (Inr (newSchedule, newMonthlyPayment', newRemainingPeriods',
                                       periodReduction')) \<Rightarrow>
                              let totalInterestNew' = calculateTotalInterest A newSchedule
                              in Some (Inr \<lparr>originalMonthlyPayment = originalMonthlyPayment',
                                           totalInterestOriginal = totalInterestOriginal',
                                           newMonthlyPayment = newMonthlyPayment',
                                           totalInterestNew = totalInterestNew',
                                           interestSavings =
                                             num_sub A totalInterestOriginal' totalInterestNew',
                                           periodReduction = periodReduction',
                                           newRemainingPeriods = newRemainingPeriods',
                                           schedule = newSchedule\<rparr>))))"

subsection \<open>The values of the loop variables\<close>

primrec equalPaymentBalance :: "'n arith \<Rightarrow> 'n \<Rightarrow> 'n \<Rightarrow> 'n \<Rightarrow> nat \<Rightarrow> 'n" where
  "equalPaymentBalance A monthlyPayment monthlyRate bal 0 = bal"
| "equalPaymentBalance A monthlyPayment monthlyRate bal (Suc k) =
     (let bal' = equalPaymentBalance A monthlyPayment monthlyRate bal k
      in num_sub A bal' (num_sub A monthlyPayment (num_mul A bal' monthlyRate)))"

definition equalPaymentEntry ::
  "'n arith \<Rightarrow> 'n \<Rightarrow> 'n \<Rightarrow> 'n \<Rightarrow> int \<Rightarrow> nat \<Rightarrow> 'n PaymentSchedule" where
  "equalPaymentEntry A monthlyPayment monthlyRate bal i k =
     \<lparr>period = i + int k, payment = monthlyPayment,
      principal = num_sub A monthlyPayment
        (num_mul A (equalPaymentBalance A monthlyPayment monthlyRate bal k) monthlyRate),
      interest = num_mul A (equalPaymentBalance A monthlyPayment monthlyRate bal k) monthlyRate,
      balance = num_max A (num_of_int A 0)
        (equalPaymentBalance A monthlyPayment monthlyRate bal (Suc k))\<rparr>"

primrec equalPrincipalBalance :: "'n arith \<Rightarrow> 'n \<Rightarrow> 'n \<Rightarrow> nat \<Rightarrow> 'n" where
  "equalPrincipalBalance A principalPayment bal 0 = bal"
| "equalPrincipalBalance A principalPayment bal (Suc k) =
     num_sub A (equalPrincipalBalance A principalPayment bal k) principalPayment"

definition equalPrincipalEntry ::
  "'n arith \<Rightarrow> 'n \<Rightarrow> 'n \<Rightarrow> 'n \<Rightarrow> int \<Rightarrow> nat \<Rightarrow> 'n PaymentSchedule" where
  "equalPrincipalEntry A principalPayment monthlyRate bal i k =
     \<lparr>period = i + int k,
      payment = num_add A principalPayment
        (num_mul A (equalPrincipalBalance A principalPayment bal k) monthlyRate),
      principal = principalPayment,
      interest = num_mul A (equalPrincipalBalance A principalPayment bal k) monthlyRate,
      balance = num_max A (num_of_int A 0)
        (equalPrincipalBalance A principalPayment bal (Suc k))\<rparr>"

definition loopBound :: "'n arith \<Rightarrow> 'n \<Rightarrow> int \<Rightarrow> bool" where
  "loopBound A periods n = (\<forall>j. 1 \<le> j \<longrightarrow> num_le A (num_of_int A j) periods = (j \<le> n))"

definition generateSchedule ::
  "'n arith \<Rightarrow> RepaymentMethod \<Rightarrow> 'n \<Rightarrow> 'n \<Rightarrow> 'n \<Rightarrow> 'n PaymentSchedule list option" where
  "generateSchedule A method princ monthlyRate periods =
     (if method = equal_principal_interest
      then generateEqualPaymentSchedule A princ monthlyRate periods
      else generateEqualPrincipalSchedule A princ monthlyRate periods)"

subsection \<open>The rounded quotient of the equal-principal term\<close>

text \<open>
  The computation of \<open>remainingPrincipal\<close>, \<open>originalPrincipalPayment\<close> and
  \<open>newRemainingPeriods\<close> in the equal-principal branch of \<open>calculateMortgage\<close>, on
  finite numbers, with the result of every operation passed through \<open>rnd\<close>: the identity
  gives the exact reading, \<open>roundToDouble\<close> the one of the source.
\<close>

definition equalPrincipalNewPeriods :: "(real \<Rightarrow> real) \<Rightarrow> real \<Rightarrow> int \<Rightarrow> real \<Rightarrow> int" where
  "equalPrincipalNewPeriods rnd totalLoan' remainingPeriods' prepaymentAmount' =
     (let remainingPrincipal = rnd (totalLoan' - prepaymentAmount');
          originalPrincipalPayment = rnd (totalLoan' / of_int remainingPeriods')
      in \<lceil>rnd (remainingPrincipal / originalPrincipalPayment)\<rceil>)"

section \<open>Auxiliary lemmas\<close>

subsection \<open>The two arithmetics\<close>

lemma doubleArith_simps [simp]:
  "num_add (doubleArith approx) = dadd" "num_sub (doubleArith approx) = dsub"
  "num_mul (doubleArith approx) = dmul" "num_div (doubleArith approx) = ddiv"
  "num_pow (doubleArith approx) = mathPow approx" "num_le (doubleArith approx) = dle"
  "num_eq (doubleArith approx) = deq" "num_ceil (doubleArith approx) = dceil"
  "num_max (doubleArith approx) = dmax" "num_of_int (doubleArith approx) i = Fin (of_int i)"
  by (simp_all add: doubleArith_def)

lemma exactArith_simps [simp]:
  "num_add exactArith = (+)" "num_sub exactArith = (-)"
  "num_mul exactArith = (*)" "num_div exactArith = (/)"
  "num_pow exactArith = realPow" "num_le exactArith = (\<le>)"
  "num_eq exactArith = (=)" "num_ceil exactArith x = of_int \<lceil>x\<rceil>"
  "num_max exactArith = max" "num_of_int exactArith = of_int"
  by (simp_all add: exactArith_def)

lemma realPow_of_int [simp]: "realPow b (of_int n) = power_int b n"
  by (simp add: realPow_def)

lemma loopBound_double: "loopBound (doubleArith approx) (Fin x) \<lfloor>x\<rfloor>"
  by (simp add: loopBound_def dle_def le_floor_iff)

lemma loopBound_double_of_int: "loopBound (doubleArith approx) (Fin (of_int n)) n"
  using loopBound_double [of approx "of_int n"] by simp

lemma loopBound_exact: "loopBound exactArith x \<lfloor>x\<rfloor>"
  by (simp add: loopBound_def le_floor_iff)

lemma loopBound_exact_of_int: "loopBound exactArith (of_int n) n"
  using loopBound_exact [of "of_int n"] by simp

subsection \<open>The loops as maps over the iteration index\<close>

lemma equalPaymentBalance_shift:
  "equalPaymentBalance A mp r (num_sub A b (num_sub A mp (num_mul A b r))) k =
   equalPaymentBalance A mp r b (Suc k)"
  by (induction k) (simp_all add: Let_def)

lemma equalPaymentEntry_0:
  "equalPaymentEntry A mp r b i 0 =
     \<lparr>period = i, payment = mp, principal = num_sub A mp (num_mul A b r),
      interest = num_mul A b r,
      balance = num_max A (num_of_int A 0) (num_sub A b (num_sub A mp (num_mul A b r)))\<rparr>"
  by (simp add: equalPaymentEntry_def Let_def)

lemma equalPaymentEntry_Suc:
  "equalPaymentEntry A mp r b i (Suc k) =
   equalPaymentEntry A mp r (num_sub A b (num_sub A mp (num_mul A b r))) (i + 1) k"
  unfolding equalPaymentEntry_def equalPaymentBalance_shift by simp

lemma map_upt_Suc_shift: "map f [0..<Suc m] = f 0 # map (\<lambda>k. f (Suc k)) [0..<m]"
  by (simp only: upt_conv_Cons [OF zero_less_Suc] map_Suc_upt [symmetric] list.map map_map o_def)

lemma equalPaymentLoop_eq_map:
  assumes "\<And>j. i \<le> j \<Longrightarrow> num_le A (num_of_int A j) periods = (j \<le> n)"
  shows "equalPaymentLoop A mp r periods i b s =
           Some (s @ map (equalPaymentEntry A mp r b i) [0..<nat (n + 1 - i)])"
  using assms
proof (induction "nat (n + 1 - i)" arbitrary: i b s)
  case 0
  then have "\<not> i \<le> n" by linarith
  with "0.prems" [of i] have "\<not> num_le A (num_of_int A i) periods" by simp
  with 0 show ?case by (subst equalPaymentLoop.simps) simp
next
  case (Suc m)
  then have le: "i \<le> n" and m: "m = nat (n + 1 - (i + 1))" by linarith+
  with Suc.prems [of i] have test: "num_le A (num_of_int A i) periods" by simp
  let ?b' = "num_sub A b (num_sub A mp (num_mul A b r))"
  have "equalPaymentLoop A mp r periods i b s =
          equalPaymentLoop A mp r periods (i + 1) ?b' (s @ [equalPaymentEntry A mp r b i 0])"
    using test by (subst equalPaymentLoop.simps) (simp add: Let_def equalPaymentEntry_0)
  also have "\<dots> = Some ((s @ [equalPaymentEntry A mp r b i 0]) @
                     map (equalPaymentEntry A mp r ?b' (i + 1)) [0..<m])"
    using Suc.hyps(1) [OF m] Suc.prems m by simp
  also have "(s @ [equalPaymentEntry A mp r b i 0]) @
               map (equalPaymentEntry A mp r ?b' (i + 1)) [0..<m] =
             s @ map (equalPaymentEntry A mp r b i) [0..<Suc m]"
    by (simp only: map_upt_Suc_shift equalPaymentEntry_Suc append_assoc append.simps)
  finally show ?case using Suc.hyps(2) by simp
qed

lemma equalPrincipalBalance_shift:
  "equalPrincipalBalance A pp (num_sub A b pp) k = equalPrincipalBalance A pp b (Suc k)"
  by (induction k) simp_all

lemma equalPrincipalEntry_0:
  "equalPrincipalEntry A pp r b i 0 =
     \<lparr>period = i, payment = num_add A pp (num_mul A b r), principal = pp,
      interest = num_mul A b r, balance = num_max A (num_of_int A 0) (num_sub A b pp)\<rparr>"
  by (simp add: equalPrincipalEntry_def)

lemma equalPrincipalEntry_Suc:
  "equalPrincipalEntry A pp r b i (Suc k) = equalPrincipalEntry A pp r (num_sub A b pp) (i + 1) k"
  unfolding equalPrincipalEntry_def equalPrincipalBalance_shift by simp

lemma equalPrincipalLoop_eq_map:
  assumes "\<And>j. i \<le> j \<Longrightarrow> num_le A (num_of_int A j) periods = (j \<le> n)"
  shows "equalPrincipalLoop A pp r periods i b s =
           Some (s @ map (equalPrincipalEntry A pp r b i) [0..<nat (n + 1 - i)])"
  using assms
proof (induction "nat (n + 1 - i)" arbitrary: i b s)
  case 0
  then have "\<not> i \<le> n" by linarith
  with "0.prems" [of i] have "\<not> num_le A (num_of_int A i) periods" by simp
  with 0 show ?case by (subst equalPrincipalLoop.simps) simp
next
  case (Suc m)
  then have le: "i \<le> n" and m: "m = nat (n + 1 - (i + 1))" by linarith+
  with Suc.prems [of i] have test: "num_le A (num_of_int A i) periods" by simp
  have "equalPrincipalLoop A pp r periods i b s =
          equalPrincipalLoop A pp r periods (i + 1) (num_sub A b pp)
            (s @ [equalPrincipalEntry A pp r b i 0])"
    using test by (subst equalPrincipalLoop.simps) (simp add: Let_def equalPrincipalEntry_0)
  also have "\<dots> = Some ((s @ [equalPrincipalEntry A pp r b i 0]) @
                     map (equalPrincipalEntry A pp r (num_sub A b pp) (i + 1)) [0..<m])"
    using Suc.hyps(1) [OF m] Suc.prems m by simp
  also have "(s @ [equalPrincipalEntry A pp r b i 0]) @
               map (equalPrincipalEntry A pp r (num_sub A b pp) (i + 1)) [0..<m] =
             s @ map (equalPrincipalEntry A pp r b i) [0..<Suc m]"
    by (simp only: map_upt_Suc_shift equalPrincipalEntry_Suc append_assoc append.simps)
  finally show ?case using Suc.hyps(2) by simp
qed

lemma generateEqualPaymentSchedule_eq_map:
  assumes "loopBound A periods n"
  shows "generateEqualPaymentSchedule A p r periods =
     Some (map (equalPaymentEntry A (calculateEqualPayment A p r periods) r p 1) [0..<nat n])"
  using assms
  by (simp add: generateEqualPaymentSchedule_def loopBound_def equalPaymentLoop_eq_map [where n = n])

lemma generateEqualPrincipalSchedule_eq_map:
  assumes "loopBound A periods n"
  shows "generateEqualPrincipalSchedule A p r periods =
     Some (map (equalPrincipalEntry A (num_div A p periods) r p 1) [0..<nat n])"
  using assms
  by (simp add: generateEqualPrincipalSchedule_def loopBound_def
      equalPrincipalLoop_eq_map [where n = n])

subsection \<open>The top-level calculation\<close>

lemma generateEqualPaymentSchedule_Cons:
  assumes "loopBound A periods n" "1 \<le> n"
  shows "\<exists>first rest. generateEqualPaymentSchedule A p r periods = Some (first # rest) \<and>
           payment first = calculateEqualPayment A p r periods"
proof -
  from assms(2) have "[0..<nat n] = 0 # [1..<nat n]" by (simp add: upt_conv_Cons)
  then show ?thesis
    by (simp add: generateEqualPaymentSchedule_eq_map [OF assms(1)] equalPaymentEntry_def)
qed

lemma generateEqualPrincipalSchedule_Cons:
  assumes "loopBound A periods n" "1 \<le> n"
  shows "\<exists>first rest. generateEqualPrincipalSchedule A p r periods = Some (first # rest) \<and>
           payment first = num_add A (num_div A p periods) (num_mul A p r)"
proof -
  from assms(2) have "[0..<nat n] = 0 # [1..<nat n]" by (simp add: upt_conv_Cons)
  then show ?thesis
    by (simp add: generateEqualPrincipalSchedule_eq_map [OF assms(1)] equalPrincipalEntry_def)
qed

lemma generateSchedule_Cons:
  assumes "loopBound A periods n" "1 \<le> n"
  shows "\<exists>first rest. generateSchedule A method p r periods = Some (first # rest) \<and>
           payment first =
             (if method = equal_principal_interest then calculateEqualPayment A p r periods
              else num_add A (num_div A p periods) (num_mul A p r))"
  using generateEqualPaymentSchedule_Cons [OF assms, of p r]
    generateEqualPrincipalSchedule_Cons [OF assms, of p r]
  by (simp add: generateSchedule_def)

lemma generateSchedule_Some:
  assumes "loopBound A periods n"
  shows "\<exists>s. generateSchedule A method p r periods = Some s"
  by (simp add: generateSchedule_def generateEqualPaymentSchedule_eq_map [OF assms]
      generateEqualPrincipalSchedule_eq_map [OF assms])

lemma calculateMortgage_generateSchedule:
  "calculateMortgage A input =
     (let monthlyRate = getMonthlyRate A (annualRate input)
      in case generateSchedule A (repaymentMethod input) (totalLoan input) monthlyRate
                (remainingPeriods input) of
           None \<Rightarrow> None
         | Some originalSchedule \<Rightarrow>
            (case originalSchedule of
               [] \<Rightarrow> Some (Inl TypeError)
             | first # _ \<Rightarrow>
                 let remainingPrincipal = num_sub A (totalLoan input) (prepaymentAmount input)
                 in if num_le A remainingPrincipal (num_of_int A 0) then
                      Some (Inr \<lparr>originalMonthlyPayment = payment first,
                                 totalInterestOriginal = calculateTotalInterest A originalSchedule,
                                 newMonthlyPayment = num_of_int A 0,
                                 totalInterestNew = num_of_int A 0,
                                 interestSavings = calculateTotalInterest A originalSchedule,
                                 periodReduction = remainingPeriods input,
                                 newRemainingPeriods = num_of_int A 0,
                                 schedule = []\<rparr>)
                    else if prepaymentType input = reduce_payment then
                      (case generateSchedule A (repaymentMethod input) remainingPrincipal
                              monthlyRate (remainingPeriods input) of
                         None \<Rightarrow> None
                       | Some newSchedule \<Rightarrow>
                          (case newSchedule of
                             [] \<Rightarrow> Some (Inl TypeError)
                           | first' # _ \<Rightarrow>
                               Some (Inr \<lparr>originalMonthlyPayment = payment first,
                                    totalInterestOriginal =
                                      calculateTotalInterest A originalSchedule,
                                    newMonthlyPayment = payment first',
                                    totalInterestNew = calculateTotalInterest A newSchedule,
                                    interestSavings =
                                      num_sub A (calculateTotalInterest A originalSchedule)
                                        (calculateTotalInterest A newSchedule),
                                    periodReduction = num_of_int A 0,
                                    newRemainingPeriods = remainingPeriods input,
                                    schedule = newSchedule\<rparr>)))
                    else
                      let newPeriods =
                            (if repaymentMethod input = equal_principal_interest
                             then calculateNewPeriods A remainingPrincipal monthlyRate
                                    (payment first)
                             else num_ceil A
                                    (num_div A remainingPrincipal
                                       (num_div A (totalLoan input) (remainingPeriods input))))
                      in (case generateSchedule A (repaymentMethod input) remainingPrincipal
                                 monthlyRate newPeriods of
                            None \<Rightarrow> None
                          | Some newSchedule \<Rightarrow>
                              Some (Inr \<lparr>originalMonthlyPayment = payment first,
                                   totalInterestOriginal =
                                     calculateTotalInterest A originalSchedule,
                                   newMonthlyPayment = payment first,
                                   totalInterestNew = calculateTotalInterest A newSchedule,
                                   interestSavings =
                                     num_sub A (calculateTotalInterest A originalSchedule)
                                       (calculateTotalInterest A newSchedule),
                                   periodReduction =
                                     num_sub A (remainingPeriods input) newPeriods,
                                   newRemainingPeriods = newPeriods,
                                   schedule = newSchedule\<rparr>))))"
  unfolding calculateMortgage_def generateSchedule_def Let_def
  by (simp split: list.split option.split)

subsection \<open>Signs of rounded results\<close>

lemma roundHalfEven_nonneg: "0 \<le> y \<Longrightarrow> 0 \<le> roundHalfEven y"
  by (auto simp: roundHalfEven_def Let_def)

lemma roundToDouble_nonpos:
  assumes "x \<le> 0"
  shows "roundToDouble x \<le> 0"
proof -
  define e where "e = max (binaryExponent \<bar>x\<bar>) (- 1022) - 52"
  have "0 \<le> \<bar>x\<bar> / power_int 2 e" by simp
  then have "0 \<le> real_of_int (roundHalfEven (\<bar>x\<bar> / power_int 2 e)) * power_int 2 e"
    by (simp add: roundHalfEven_nonneg)
  moreover from assms have "sgn x \<le> 0" by (simp add: sgn_if)
  ultimately have "sgn x * (real_of_int (roundHalfEven (\<bar>x\<bar> / power_int 2 e)) * power_int 2 e) \<le> 0"
    by (rule mult_nonpos_nonneg [rotated])
  then show ?thesis by (simp add: roundToDouble_def Let_def e_def mult.assoc)
qed

lemma roundToDouble_zero [simp]: "roundToDouble 0 = 0"
  by (simp add: roundToDouble_def)

lemma toDouble_nonpos:
  assumes "x \<le> 0"
  shows "dle (toDouble x) (Fin 0)"
  using roundToDouble_nonpos [OF assms] assms
  by (auto simp: toDouble_def Let_def dle_def signedInf_def signedZero_def)

lemma valueOf_dneg [simp]: "valueOf (dneg a) = - valueOf a"
  by (cases a) simp_all

lemma dle_dsub_zero:
  assumes "P - X \<le> 0"
  shows "dle (dsub (Fin P) (Fin X)) (Fin 0)"
proof (cases "P - X = 0")
  case True
  then show ?thesis
    by (simp add: dsub_def dadd_def signedZero_def dle_def)
next
  case False
  with assms toDouble_nonpos [of "P - X"] show ?thesis
    by (cases "X = 0") (simp_all add: dsub_def dadd_def)
qed

subsection \<open>Evaluating double arithmetic\<close>

lemmas double_eval =
  toDouble_def roundToDouble_def roundHalfEven_def Let_def signedInf_def signedZero_def
  binaryExponent.simps power_int_minus dadd_def dsub_def dmul_def ddiv_def dle_def deq_def
  dlt_def dmax_def

lemma monthlyRate_12:
  "getMonthlyRate (doubleArith approx) (Fin 12) = Fin (5764607523034235 / 576460752303423488)"
  by (simp add: getMonthlyRate_def double_eval)

subsection \<open>The branches of the top-level calculation\<close>

lemma calculateMortgage_terminal:
  assumes "loopBound A (remainingPeriods input) n" and "1 \<le> n"
    and "num_le A (num_sub A (totalLoan input) (prepaymentAmount input)) (num_of_int A 0)"
  shows "\<exists>res. calculateMortgage A input = Some (Inr res) \<and>
           newMonthlyPayment res = num_of_int A 0 \<and>
           totalInterestNew res = num_of_int A 0 \<and>
           interestSavings res = totalInterestOriginal res \<and>
           periodReduction res = remainingPeriods input \<and>
           newRemainingPeriods res = num_of_int A 0 \<and>
           schedule res = []"
proof -
  from generateSchedule_Cons [OF assms(1,2)]
  obtain first rest where
    "generateSchedule A (repaymentMethod input) (totalLoan input)
       (getMonthlyRate A (annualRate input)) (remainingPeriods input) = Some (first # rest)"
    by blast
  with assms(3) show ?thesis
    by (simp add: calculateMortgage_generateSchedule Let_def)
qed

lemma calculateMortgage_reduce_payment:
  assumes "loopBound A (remainingPeriods input) n" and "1 \<le> n"
    and "\<not> num_le A (num_sub A (totalLoan input) (prepaymentAmount input)) (num_of_int A 0)"
    and "prepaymentType input = reduce_payment"
  shows "\<exists>res first rest. calculateMortgage A input = Some (Inr res) \<and>
           newRemainingPeriods res = remainingPeriods input \<and>
           periodReduction res = num_of_int A 0 \<and>
           generateSchedule A (repaymentMethod input)
             (num_sub A (totalLoan input) (prepaymentAmount input))
             (getMonthlyRate A (annualRate input)) (remainingPeriods input) =
             Some (schedule res) \<and>
           schedule res = first # rest \<and>
           newMonthlyPayment res = payment first \<and>
           newMonthlyPayment res =
             (if repaymentMethod input = equal_principal_interest
              then calculateEqualPayment A
                     (num_sub A (totalLoan input) (prepaymentAmount input))
                     (getMonthlyRate A (annualRate input)) (remainingPeriods input)
              else num_add A
                     (num_div A (num_sub A (totalLoan input) (prepaymentAmount input))
                        (remainingPeriods input))
                     (num_mul A (num_sub A (totalLoan input) (prepaymentAmount input))
                        (getMonthlyRate A (annualRate input)))) \<and>
           originalMonthlyPayment res =
             (if repaymentMethod input = equal_principal_interest
              then calculateEqualPayment A (totalLoan input)
                     (getMonthlyRate A (annualRate input)) (remainingPeriods input)
              else num_add A (num_div A (totalLoan input) (remainingPeriods input))
                     (num_mul A (totalLoan input) (getMonthlyRate A (annualRate input))))"
proof -
  let ?r = "getMonthlyRate A (annualRate input)"
  let ?rp = "num_sub A (totalLoan input) (prepaymentAmount input)"
  from generateSchedule_Cons [OF assms(1,2)]
  obtain first rest where orig:
    "generateSchedule A (repaymentMethod input) (totalLoan input) ?r (remainingPeriods input) =
       Some (first # rest)"
    "payment first =
       (if repaymentMethod input = equal_principal_interest
        then calculateEqualPayment A (totalLoan input) ?r (remainingPeriods input)
        else num_add A (num_div A (totalLoan input) (remainingPeriods input))
               (num_mul A (totalLoan input) ?r))"
    by blast
  from generateSchedule_Cons [OF assms(1,2)]
  obtain first' rest' where new:
    "generateSchedule A (repaymentMethod input) ?rp ?r (remainingPeriods input) =
       Some (first' # rest')"
    "payment first' =
       (if repaymentMethod input = equal_principal_interest
        then calculateEqualPayment A ?rp ?r (remainingPeriods input)
        else num_add A (num_div A ?rp (remainingPeriods input)) (num_mul A ?rp ?r))"
    by blast
  define res where "res =
      \<lparr>originalMonthlyPayment = payment first,
       totalInterestOriginal = calculateTotalInterest A (first # rest),
       newMonthlyPayment = payment first',
       totalInterestNew = calculateTotalInterest A (first' # rest'),
       interestSavings = num_sub A (calculateTotalInterest A (first # rest))
         (calculateTotalInterest A (first' # rest')),
       periodReduction = num_of_int A 0,
       newRemainingPeriods = remainingPeriods input,
       schedule = first' # rest'\<rparr>"
  have run: "calculateMortgage A input = Some (Inr res)"
    using assms(3,4) orig(1) new(1)
    by (simp add: calculateMortgage_generateSchedule Let_def res_def)
  show ?thesis
  proof (intro exI [of _ res] exI [of _ first'] exI [of _ rest'] conjI)
    show "calculateMortgage A input = Some (Inr res)" by (rule run)
    show "newRemainingPeriods res = remainingPeriods input" by (simp add: res_def)
    show "periodReduction res = num_of_int A 0" by (simp add: res_def)
    show "generateSchedule A (repaymentMethod input) ?rp ?r (remainingPeriods input) =
            Some (schedule res)"
      using new(1) by (simp add: res_def)
    show "schedule res = first' # rest'" by (simp add: res_def)
    show "newMonthlyPayment res = payment first'" by (simp add: res_def)
    show "newMonthlyPayment res =
             (if repaymentMethod input = equal_principal_interest
              then calculateEqualPayment A ?rp ?r (remainingPeriods input)
              else num_add A (num_div A ?rp (remainingPeriods input)) (num_mul A ?rp ?r))"
      using new(2) by (simp add: res_def)
    show "originalMonthlyPayment res =
             (if repaymentMethod input = equal_principal_interest
              then calculateEqualPayment A (totalLoan input) ?r (remainingPeriods input)
              else num_add A (num_div A (totalLoan input) (remainingPeriods input))
                     (num_mul A (totalLoan input) ?r))"
      using orig(2) by (simp add: res_def)
  qed
qed

lemma calculateMortgage_reduce_period:
  assumes "loopBound A (remainingPeriods input) n" and "1 \<le> n"
    and "\<not> num_le A (num_sub A (totalLoan input) (prepaymentAmount input)) (num_of_int A 0)"
    and "prepaymentType input = reduce_period"
    and "originalPayment =
           (if repaymentMethod input = equal_principal_interest
            then calculateEqualPayment A (totalLoan input)
                   (getMonthlyRate A (annualRate input)) (remainingPeriods input)
            else num_add A (num_div A (totalLoan input) (remainingPeriods input))
                   (num_mul A (totalLoan input) (getMonthlyRate A (annualRate input))))"
    and "newPeriods =
           (if repaymentMethod input = equal_principal_interest
            then calculateNewPeriods A (num_sub A (totalLoan input) (prepaymentAmount input))
                   (getMonthlyRate A (annualRate input)) originalPayment
            else num_ceil A
                   (num_div A (num_sub A (totalLoan input) (prepaymentAmount input))
                      (num_div A (totalLoan input) (remainingPeriods input))))"
    and "loopBound A newPeriods m"
  shows "\<exists>res. calculateMortgage A input = Some (Inr res) \<and>
           originalMonthlyPayment res = originalPayment \<and>
           newMonthlyPayment res = originalPayment \<and>
           newRemainingPeriods res = newPeriods \<and>
           periodReduction res = num_sub A (remainingPeriods input) newPeriods \<and>
           generateSchedule A (repaymentMethod input)
             (num_sub A (totalLoan input) (prepaymentAmount input))
             (getMonthlyRate A (annualRate input)) newPeriods = Some (schedule res)"
proof -
  let ?r = "getMonthlyRate A (annualRate input)"
  let ?rp = "num_sub A (totalLoan input) (prepaymentAmount input)"
  from generateSchedule_Cons [OF assms(1,2)] assms(5)
  obtain first rest where orig:
    "generateSchedule A (repaymentMethod input) (totalLoan input) ?r (remainingPeriods input) =
       Some (first # rest)"
    "payment first = originalPayment"
    by metis
  from generateSchedule_Some [OF assms(7)]
  obtain s where new: "generateSchedule A (repaymentMethod input) ?rp ?r newPeriods = Some s"
    by blast
  define res where "res =
      \<lparr>originalMonthlyPayment = originalPayment,
       totalInterestOriginal = calculateTotalInterest A (first # rest),
       newMonthlyPayment = originalPayment,
       totalInterestNew = calculateTotalInterest A s,
       interestSavings = num_sub A (calculateTotalInterest A (first # rest))
         (calculateTotalInterest A s),
       periodReduction = num_sub A (remainingPeriods input) newPeriods,
       newRemainingPeriods = newPeriods,
       schedule = s\<rparr>"
  have "calculateMortgage A input = Some (Inr res)"
  proof (cases "repaymentMethod input = equal_principal_interest")
    case True
    with assms(6) have np: "calculateNewPeriods A ?rp ?r originalPayment = newPeriods" by simp
    from True assms(3,4) orig new show ?thesis
      by (simp add: calculateMortgage_generateSchedule Let_def res_def np)
  next
    case False
    with assms(6) have np:
      "num_ceil A (num_div A ?rp (num_div A (totalLoan input) (remainingPeriods input))) =
         newPeriods"
      by simp
    from False assms(3,4) orig new show ?thesis
      by (simp add: calculateMortgage_generateSchedule Let_def res_def np)
  qed
  moreover have "originalMonthlyPayment res = originalPayment"
    and "newMonthlyPayment res = originalPayment"
    and "newRemainingPeriods res = newPeriods"
    and "periodReduction res = num_sub A (remainingPeriods input) newPeriods"
    and "generateSchedule A (repaymentMethod input) ?rp ?r newPeriods = Some (schedule res)"
    using new by (simp_all add: res_def)
  ultimately show ?thesis by blast
qed

lemma loopBound_double_numeral [simp]:
  "loopBound (doubleArith approx) (Fin (numeral k)) (numeral k)"
  using loopBound_double_of_int [of approx "numeral k"] by simp

subsection \<open>The equal-principal term at loans of 100000\<close>

lemma roundToDouble_loan: "roundToDouble 100000 = 100000"
  by (simp add: double_eval)

lemma roundToDouble_portion: "roundToDouble (100000 / 11) = 4997780126254545 / 549755813888"
  by (simp add: double_eval)

lemma roundToDouble_quotient:
  "roundToDouble (10995116277760000 / 999556025250909) = 6192449487634433 / 562949953421312"
  by (simp add: double_eval)

lemma exact_quotient_loan: "equalPrincipalNewPeriods (\<lambda>x. x) 100000 11 0 = 11"
  by (simp add: equalPrincipalNewPeriods_def)

lemma calculateMortgage_loan_100000_11:
  "\<exists>res. calculateMortgage (doubleArith approx)
       \<lparr>totalLoan = Fin 100000, remainingPeriods = Fin 11, annualRate = a,
        prepaymentAmount = Fin 0, repaymentMethod = equal_principal,
        prepaymentType = reduce_period\<rparr> = Some (Inr res) \<and>
     newRemainingPeriods res = Fin 12 \<and> periodReduction res = Fin (- 1)"
proof -
  let ?input = "\<lparr>totalLoan = Fin 100000, remainingPeriods = Fin 11, annualRate = a,
        prepaymentAmount = Fin 0, repaymentMethod = equal_principal,
        prepaymentType = reduce_period\<rparr>"
  have guard: "\<not> dle (dsub (Fin 100000) (Fin 0)) (Fin 0)"
    by (simp add: double_eval)
  have np: "dceil (ddiv (dsub (Fin 100000) (Fin 0)) (ddiv (Fin 100000) (Fin 11))) = Fin 12"
    by (simp add: double_eval)
  have pr: "dsub (Fin 11) (Fin 12) = Fin (- 1)"
    by (simp add: double_eval)
  have "\<exists>res. calculateMortgage (doubleArith approx) ?input = Some (Inr res) \<and>
           originalMonthlyPayment res =
             dadd (ddiv (Fin 100000) (Fin 11))
               (dmul (Fin 100000) (getMonthlyRate (doubleArith approx) a)) \<and>
           newMonthlyPayment res =
             dadd (ddiv (Fin 100000) (Fin 11))
               (dmul (Fin 100000) (getMonthlyRate (doubleArith approx) a)) \<and>
           newRemainingPeriods res = Fin 12 \<and>
           periodReduction res = num_sub (doubleArith approx) (remainingPeriods ?input) (Fin 12) \<and>
           generateSchedule (doubleArith approx) (repaymentMethod ?input)
             (num_sub (doubleArith approx) (totalLoan ?input) (prepaymentAmount ?input))
             (getMonthlyRate (doubleArith approx) (annualRate ?input)) (Fin 12) =
             Some (schedule res)"
    by (rule calculateMortgage_reduce_period [where n = 11 and m = 12])
      (simp_all add: guard np)
  then show ?thesis by (auto simp: pr)
qed

section \<open>The claims\<close>

text \<open>
  C5. When the prepayment covers the whole loan (positive loan, at least one remaining
  period), \<open>calculateMortgage\<close> returns new monthly payment 0, new total interest 0,
  interest savings equal to the original total interest, period reduction equal to the
  remaining periods, 0 new periods and an empty schedule, whatever the repayment method
  and the strategy.
\<close>

theorem C5_full_prepayment:
  assumes "totalLoan input = Fin P" and "prepaymentAmount input = Fin X"
    and "remainingPeriods input = Fin (of_int n)"
    and "P - X \<le> 0" and "0 < P" and "1 \<le> n"
  shows "\<exists>res. calculateMortgage (doubleArith approx) input = Some (Inr res) \<and>
           newMonthlyPayment res = Fin 0 \<and>
           totalInterestNew res = Fin 0 \<and>
           interestSavings res = totalInterestOriginal res \<and>
           periodReduction res = remainingPeriods input \<and>
           newRemainingPeriods res = Fin 0 \<and>
           schedule res = []"
proof -
  have "loopBound (doubleArith approx) (remainingPeriods input) n"
    unfolding assms(3) by (rule loopBound_double_of_int)
  moreover have "num_le (doubleArith approx)
      (num_sub (doubleArith approx) (totalLoan input) (prepaymentAmount input))
      (num_of_int (doubleArith approx) 0)"
    using dle_dsub_zero [OF assms(4)] by (simp add: assms(1,2))
  ultimately show ?thesis
    using calculateMortgage_terminal [of "doubleArith approx" input n] assms(6) by simp
qed

theorem C5_witness:
  "\<exists>res. calculateMortgage (doubleArith nearestPow)
       \<lparr>totalLoan = Fin 500000, remainingPeriods = Fin 240,
        annualRate = Fin (roundToDouble (385 / 100)), prepaymentAmount = Fin 500000,
        repaymentMethod = equal_principal_interest, prepaymentType = reduce_payment\<rparr> =
       Some (Inr res) \<and>
     newMonthlyPayment res = Fin 0 \<and>
     totalInterestNew res = Fin 0 \<and>
     interestSavings res = totalInterestOriginal res \<and>
     periodReduction res = Fin 240 \<and>
     newRemainingPeriods res = Fin 0 \<and>
     schedule res = []"
  using C5_full_prepayment
    [of "\<lparr>totalLoan = Fin 500000, remainingPeriods = Fin 240,
          annualRate = Fin (roundToDouble (385 / 100)), prepaymentAmount = Fin 500000,
          repaymentMethod = equal_principal_interest, prepaymentType = reduce_payment\<rparr>"
        500000 500000 240 nearestPow]
  by simp

text \<open>
  C6. The claim is that under the caller's preconditions the strategy that shortens the
  term returns at most the remaining periods, for both repayment methods. In exact
  arithmetic it holds (\<open>reduce_term_never_lengthens_exact\<close>). As the source computes
  it, with rounded quotients, it fails for the equal-principal method: for a loan of
  100000 over 11 periods and a prepayment of 0 the quotient
  \<open>100000 / (100000 / 11)\<close> rounds to the double just above 11, and its ceiling, the
  new number of periods, is 12 (the exact reading gives 11, \<open>exact_quotient_loan\<close>;
  \<open>calculateMortgage\<close> in double arithmetic returns 12 and a period reduction of -1,
  \<open>calculateMortgage_loan_100000_11\<close>).
\<close>

theorem C6_rounded_quotient_lengthens_term:
  "equalPrincipalNewPeriods roundToDouble 100000 11 0 = 12"
  by (simp add: equalPrincipalNewPeriods_def Let_def roundToDouble_loan roundToDouble_portion
      roundToDouble_quotient)

text \<open>
  C10. There is a valid input with the strategy that shortens the term for which the
  reported new monthly payment, pinned to the original one, differs from the payment of
  the first entry of the returned schedule: a loan of 1200 over 12 periods at 12% a year,
  equal principal, with a prepayment of 600, reports 112 while the schedule starts at 106.
\<close>

theorem C10_reduce_term_payment_differs:
  "\<exists>res first rest.
     calculateMortgage (doubleArith approx)
       \<lparr>totalLoan = Fin 1200, remainingPeriods = Fin 12, annualRate = Fin 12,
        prepaymentAmount = Fin 600, repaymentMethod = equal_principal,
        prepaymentType = reduce_period\<rparr> = Some (Inr res) \<and>
     schedule res = first # rest \<and>
     newMonthlyPayment res = originalMonthlyPayment res \<and>
     newMonthlyPayment res = Fin 112 \<and>
     payment first = Fin 106 \<and>
     newMonthlyPayment res \<noteq> payment first"
proof -
  let ?A = "doubleArith approx"
  let ?input = "\<lparr>totalLoan = Fin 1200, remainingPeriods = Fin 12, annualRate = Fin 12,
        prepaymentAmount = Fin 600, repaymentMethod = equal_principal,
        prepaymentType = reduce_period\<rparr>"
  let ?r = "Fin (5764607523034235 / 576460752303423488)"
  have rp: "dsub (Fin 1200) (Fin 600) = Fin 600"
    and guard: "\<not> dle (Fin 600) (Fin 0)"
    and orig: "dadd (ddiv (Fin 1200) (Fin 12)) (dmul (Fin 1200) ?r) = Fin 112"
    and np: "dceil (ddiv (Fin 600) (ddiv (Fin 1200) (Fin 12))) = Fin 6"
    and new: "dadd (ddiv (Fin 600) (Fin 6)) (dmul (Fin 600) ?r) = Fin 106"
    by (simp_all add: double_eval)
  have "\<exists>res. calculateMortgage ?A ?input = Some (Inr res) \<and>
           originalMonthlyPayment res = Fin 112 \<and>
           newMonthlyPayment res = Fin 112 \<and>
           newRemainingPeriods res = Fin 6 \<and>
           periodReduction res = num_sub ?A (remainingPeriods ?input) (Fin 6) \<and>
           generateSchedule ?A (repaymentMethod ?input)
             (num_sub ?A (totalLoan ?input) (prepaymentAmount ?input))
             (getMonthlyRate ?A (annualRate ?input)) (Fin 6) = Some (schedule res)"
    by (rule calculateMortgage_reduce_period [where n = 12 and m = 6])
      (simp_all add: monthlyRate_12 rp guard orig np)
  then obtain res where res: "calculateMortgage ?A ?input = Some (Inr res)"
    "originalMonthlyPayment res = Fin 112" "newMonthlyPayment res = Fin 112"
    "generateSchedule ?A equal_principal (Fin 600) ?r (Fin 6) = Some (schedule res)"
    by (auto simp: monthlyRate_12 rp)
  have "\<exists>first rest. generateSchedule ?A equal_principal (Fin 600) ?r (Fin 6) =
            Some (first # rest) \<and>
          payment first =
            (if equal_principal = equal_principal_interest
             then calculateEqualPayment ?A (Fin 600) ?r (Fin 6)
             else num_add ?A (num_div ?A (Fin 600) (Fin 6)) (num_mul ?A (Fin 600) ?r))"
    by (rule generateSchedule_Cons [where n = 6]) simp_all
  then obtain first rest where
    "generateSchedule ?A equal_principal (Fin 600) ?r (Fin 6) = Some (first # rest)"
    and "payment first = Fin 106"
    by (auto simp: new)
  with res(4) have "schedule res = first # rest" and "payment first = Fin 106"
    by simp_all
  with res(1-3) show ?thesis by auto
qed

text \<open>
  C3. The claim is that with the strategy that shortens the term and the equal-principal
  method the new number of periods is the ceiling of
  \<open>remainingPrincipal / (totalLoan / remainingPeriods)\<close>. The source takes
  \<open>Math.ceil\<close> of the rounded quotient of rounded operands, and the two differ: for a
  loan of 100000 over 22 periods and a prepayment of 50000 the exact quotient is 11 and
  its ceiling 11, while \<open>calculateMortgage\<close> in double arithmetic returns 12 new periods
  and a period reduction of 10. The new monthly payment is the original one, and the
  period reduction is the remaining periods less the new number of periods, as claimed.
\<close>

theorem C3_rounded_quotient_overshoots:
  "\<exists>res. calculateMortgage (doubleArith approx)
       \<lparr>totalLoan = Fin 100000, remainingPeriods = Fin 22, annualRate = a,
        prepaymentAmount = Fin 50000, repaymentMethod = equal_principal,
        prepaymentType = reduce_period\<rparr> = Some (Inr res) \<and>
     newRemainingPeriods res = Fin 12 \<and>
     periodReduction res = Fin 10 \<and>
     newMonthlyPayment res = originalMonthlyPayment res \<and>
     \<lceil>(100000 - 50000) / (100000 / 22 :: real)\<rceil> = 11"
proof -
  let ?A = "doubleArith approx"
  let ?input = "\<lparr>totalLoan = Fin 100000, remainingPeriods = Fin 22, annualRate = a,
        prepaymentAmount = Fin 50000, repaymentMethod = equal_principal,
        prepaymentType = reduce_period\<rparr>"
  have rp: "dsub (Fin 100000) (Fin 50000) = Fin 50000"
    and guard: "\<not> dle (Fin 50000) (Fin 0)"
    and np: "dceil (ddiv (Fin 50000) (ddiv (Fin 100000) (Fin 22))) = Fin 12"
    and pr: "dsub (Fin 22) (Fin 12) = Fin 10"
    by (simp_all add: double_eval)
  have "\<exists>res. calculateMortgage ?A ?input = Some (Inr res) \<and>
           originalMonthlyPayment res =
             dadd (ddiv (Fin 100000) (Fin 22)) (dmul (Fin 100000) (getMonthlyRate ?A a)) \<and>
           newMonthlyPayment res =
             dadd (ddiv (Fin 100000) (Fin 22)) (dmul (Fin 100000) (getMonthlyRate ?A a)) \<and>
           newRemainingPeriods res = Fin 12 \<and>
           periodReduction res = num_sub ?A (remainingPeriods ?input) (Fin 12) \<and>
           generateSchedule ?A (repaymentMethod ?input)
             (num_sub ?A (totalLoan ?input) (prepaymentAmount ?input))
             (getMonthlyRate ?A (annualRate ?input)) (Fin 12) = Some (schedule res)"
    by (rule calculateMortgage_reduce_period [where n = 22 and m = 12])
      (simp_all add: rp guard np)
  moreover have "\<lceil>(100000 - 50000) / (100000 / 22 :: real)\<rceil> = 11" by simp
  ultimately show ?thesis by (auto simp: pr)
qed

end
